theory Spec2Isabelle
  imports Complex_Main
begin

section \<open>Fetch client (internal/data/http.go)\<close>

text \<open>
  \<^verbatim>\<open>time.Duration\<close> is a signed 64-bit count of nanoseconds. It is modelled as an
  \<^typ>\<open>int\<close>, and the one arithmetic expression of the source that can overflow (the
  backoff delay) wraps explicitly.
\<close>

type_synonym Duration = int

definition Millisecond :: Duration where
  "Millisecond = 1000000"

definition Second :: Duration where
  "Second = 1000000000"

definition wrap64 :: "int \<Rightarrow> int" where
  "wrap64 x = (x + 2 ^ 63) mod 2 ^ 64 - 2 ^ 63"

text \<open>
  Errors as values. \<open>RateLimitError\<close> and \<open>httpError\<close> are the two error types of the
  source; \<open>AfterRetries n e\<close> is \<^verbatim>\<open>fmt.Errorf("after %d retries: %w", n, e)\<close>;
  \<open>ErrWrap\<close> is any other error that wraps a cause with \<^verbatim>\<open>%w\<close>; \<open>ErrOpaque\<close> is an
  error without structure (a transport failure, a context error, \<^verbatim>\<open>"fetch failed"\<close>).
\<close>

datatype error =
    ErrOpaque string
  | RateLimitError Duration
  | httpError int string
  | AfterRetries int error
  | ErrWrap string error

fun IsRateLimit :: "error \<Rightarrow> bool" where
  "IsRateLimit (httpError code st) = (code = 429)"
| "IsRateLimit _ = False"

fun IsRetryable :: "error \<Rightarrow> bool" where
  "IsRetryable (httpError code st) = (code \<ge> 500)"
| "IsRetryable _ = False"

record fetchOptions =
  MaxRetries :: int
  BaseDelay :: Duration

definition defaultFetchOptions :: fetchOptions where
  "defaultFetchOptions = \<lparr> MaxRetries = 3, BaseDelay = 500 * Millisecond \<rparr>"

text \<open>
  What one call of \<^verbatim>\<open>defaultClient.Do\<close> gives back: an error, or a response with its
  status code, status text, the value of \<^verbatim>\<open>Header.Get("Retry-After")\<close> (the empty
  string when the header is absent) and the result of \<^verbatim>\<open>io.ReadAll(resp.Body)\<close>.
\<close>

record response =
  StatusCode :: int
  Status :: string
  RetryAfterHeader :: string
  ReadAll :: "error + string"

datatype doResult = DoError error | DoResponse response

text \<open>
  The world a call of \<^verbatim>\<open>fetch\<close> runs in: whether building the request fails, what the
  \<open>k\<close>-th attempt's \<^verbatim>\<open>Do\<close> returns, whether the context is done before the timer
  of the backoff before attempt \<open>k\<close> fires (with \<^verbatim>\<open>ctx.Err()\<close>), and the library
  function \<^verbatim>\<open>time.ParseDuration\<close>.
\<close>

record world =
  NewRequest :: "error option"
  clientDo :: "nat \<Rightarrow> doResult"
  ctxDone :: "nat \<Rightarrow> error option"
  ParseDuration :: "string \<Rightarrow> error + Duration"

text \<open>The observable effects of a call, in order: a completed sleep, a request sent.\<close>

datatype event = Slept Duration | Do nat

text \<open>
  \<^verbatim>\<open>delay := opts.BaseDelay * time.Duration(1<<(attempt-1))\<close>, for \<open>attempt > 0\<close>;
  both the shift and the product are 64-bit.
\<close>

definition delay :: "fetchOptions \<Rightarrow> nat \<Rightarrow> Duration" where
  "delay opts attempt = wrap64 (BaseDelay opts * wrap64 (2 ^ (attempt - 1)))"

text \<open>The handling of a response with status 429.\<close>

definition retryAfterOf :: "world \<Rightarrow> string \<Rightarrow> Duration" where
  "retryAfterOf w retryStr =
     (if retryStr \<noteq> [] then
        (case ParseDuration w (retryStr @ ''s'') of
           Inr d \<Rightarrow> d
         | Inl e \<Rightarrow> 60 * Second)
      else 60 * Second)"

text \<open>
  One iteration of the loop: the events it causes and whether it leaves the function
  (\<open>Return\<close>) or goes on to the next attempt with \<open>lastErr\<close> set (\<open>Continue\<close>).
\<close>

datatype outcome = Continue error | Return "error + string"

definition classify :: "world \<Rightarrow> response \<Rightarrow> outcome" where
  "classify w resp =
     (case ReadAll resp of
        Inl e \<Rightarrow> Continue e
      | Inr body \<Rightarrow>
          if StatusCode resp = 429 then
            Return (Inl (RateLimitError (retryAfterOf w (RetryAfterHeader resp))))
          else if StatusCode resp \<noteq> 200 then
            (if IsRetryable (httpError (StatusCode resp) (Status resp))
             then Continue (httpError (StatusCode resp) (Status resp))
             else Return (Inl (httpError (StatusCode resp) (Status resp))))
          else Return (Inr body))"

definition send :: "world \<Rightarrow> nat \<Rightarrow> event list \<times> outcome" where
  "send w attempt =
     (case NewRequest w of
        Some e \<Rightarrow> ([], Return (Inl e))
      | None \<Rightarrow>
          (case clientDo w attempt of
             DoError e \<Rightarrow> ([Do attempt], Continue e)
           | DoResponse resp \<Rightarrow> ([Do attempt], classify w resp)))"

definition attempt_body :: "world \<Rightarrow> fetchOptions \<Rightarrow> nat \<Rightarrow> event list \<times> outcome" where
  "attempt_body w opts attempt =
     (if attempt > 0 then
        (case ctxDone w attempt of
           Some e \<Rightarrow> ([], Return (Inl e))
         | None \<Rightarrow> (Slept (delay opts attempt) # fst (send w attempt), snd (send w attempt)))
      else send w attempt)"

definition after_loop :: "fetchOptions \<Rightarrow> error option \<Rightarrow> error + string" where
  "after_loop opts lastErr =
     (case lastErr of
        Some e \<Rightarrow> Inl (AfterRetries (MaxRetries opts) e)
      | None \<Rightarrow> Inl (ErrOpaque ''fetch failed''))"

text \<open>
  The loop \<^verbatim>\<open>for attempt := 0; attempt <= opts.MaxRetries; attempt++\<close>. The counter is
  a natural number: the source's \<^verbatim>\<open>int\<close> counter agrees with it as long as
  \<open>MaxRetries < 2^63 - 1\<close>.
\<close>

function fetch_loop ::
  "world \<Rightarrow> fetchOptions \<Rightarrow> nat \<Rightarrow> error option \<Rightarrow> event list \<times> (error + string)" where
  "fetch_loop w opts attempt lastErr =
     (if int attempt \<le> MaxRetries opts then
        (case snd (attempt_body w opts attempt) of
           Return r \<Rightarrow> (fst (attempt_body w opts attempt), r)
         | Continue e \<Rightarrow>
             (fst (attempt_body w opts attempt) @ fst (fetch_loop w opts (Suc attempt) (Some e)),
              snd (fetch_loop w opts (Suc attempt) (Some e))))
      else ([], after_loop opts lastErr))"
  by pat_completeness auto
termination
  by (relation "measure (\<lambda>(w, opts, attempt, lastErr). nat (MaxRetries opts + 1 - int attempt))") auto

declare fetch_loop.simps [simp del]

definition fetch :: "world \<Rightarrow> fetchOptions option \<Rightarrow> event list \<times> (error + string)" where
  "fetch w opts =
     (case opts of
        None \<Rightarrow> fetch_loop w defaultFetchOptions 0 None
      | Some o1 \<Rightarrow> fetch_loop w o1 0 None)"


text \<open>Reading aids for the statements about \<open>fetch\<close>.\<close>

definition optionsOf :: "fetchOptions option \<Rightarrow> fetchOptions" where
  "optionsOf opts = (case opts of None \<Rightarrow> defaultFetchOptions | Some o1 \<Rightarrow> o1)"

text \<open>The events of attempt \<open>j\<close> when it gets as far as sending its request.\<close>

definition attempt_events :: "fetchOptions \<Rightarrow> nat \<Rightarrow> event list" where
  "attempt_events opts j = (if j > 0 then [Slept (delay opts j)] else []) @ [Do j]"

text \<open>The events of the attempts \<open>a, \<dots>, b - 1\<close>.\<close>

definition trace :: "fetchOptions \<Rightarrow> nat \<Rightarrow> nat \<Rightarrow> event list" where
  "trace opts a b = concat (map (attempt_events opts) [a..<b])"

fun isDo :: "event \<Rightarrow> bool" where
  "isDo (Do k) = True"
| "isDo (Slept d) = False"

text \<open>
  A retryable result of \<^verbatim>\<open>Do\<close>: a transport failure, a body that cannot be read, or
  a status of 500 or more; and the error the loop keeps as \<open>lastErr\<close> for it.
\<close>

fun retryable_failure :: "doResult \<Rightarrow> bool" where
  "retryable_failure (DoError e) = True"
| "retryable_failure (DoResponse r) =
     (case ReadAll r of Inl e \<Rightarrow> True | Inr body \<Rightarrow> StatusCode r \<ge> 500)"

fun cause_of :: "doResult \<Rightarrow> error" where
  "cause_of (DoError e) = e"
| "cause_of (DoResponse r) =
     (case ReadAll r of Inl e \<Rightarrow> e | Inr body \<Rightarrow> httpError (StatusCode r) (Status r))"

text \<open>
  Attempt \<open>k\<close> is reached without outside interference: the request can be built and the
  context is not done during any of the backoff sleeps up to attempt \<open>k\<close>.
\<close>

definition undisturbed :: "world \<Rightarrow> nat \<Rightarrow> bool" where
  "undisturbed w k = (NewRequest w = None \<and> list_all (\<lambda>j. ctxDone w j = None) [1..<Suc k])"

text \<open>The full trace of four attempts under the default options.\<close>

definition default_trace :: "event list" where
  "default_trace = [Do 0, Slept (500 * Millisecond), Do 1, Slept (1000 * Millisecond), Do 2,
                    Slept (2000 * Millisecond), Do 3]"

subsection \<open>Concrete worlds\<close>

definition no_durations :: "string \<Rightarrow> error + Duration" where
  "no_durations s = Inl (ErrOpaque ''invalid duration'')"

definition seconds_30 :: "string \<Rightarrow> error + Duration" where
  "seconds_30 s = (if s = ''30s'' then Inr (30 * Second) else Inl (ErrOpaque ''invalid duration''))"

definition resp_ok :: response where
  "resp_ok = \<lparr> StatusCode = 200, Status = ''200 OK'', RetryAfterHeader = [],
               ReadAll = Inr ''data'' \<rparr>"

definition resp_busy :: response where
  "resp_busy = \<lparr> StatusCode = 503, Status = ''503 Service Unavailable'', RetryAfterHeader = [],
                 ReadAll = Inr ''busy'' \<rparr>"

definition resp_limited :: response where
  "resp_limited = \<lparr> StatusCode = 429, Status = ''429 Too Many Requests'',
                    RetryAfterHeader = ''30'', ReadAll = Inr ''slow down'' \<rparr>"

definition resp_missing :: response where
  "resp_missing = \<lparr> StatusCode = 404, Status = ''404 Not Found'', RetryAfterHeader = [],
                    ReadAll = Inr ''nothing'' \<rparr>"

text \<open>503, then 429 with \<^verbatim>\<open>Retry-After: 30\<close>.\<close>

definition world_limited :: world where
  "world_limited = \<lparr> NewRequest = None,
      clientDo = (\<lambda>k. if k = 0 then DoResponse resp_busy else DoResponse resp_limited),
      ctxDone = (\<lambda>k. None), ParseDuration = seconds_30 \<rparr>"

text \<open>429 whose body cannot be read, then 200.\<close>

definition world_unread :: world where
  "world_unread = \<lparr> NewRequest = None,
      clientDo = (\<lambda>k. if k = 0
         then DoResponse (resp_limited \<lparr> ReadAll := Inl (ErrOpaque ''unexpected EOF'') \<rparr>)
         else DoResponse resp_ok),
      ctxDone = (\<lambda>k. None), ParseDuration = seconds_30 \<rparr>"

text \<open>503, 503, then 200.\<close>

definition world_recovers :: world where
  "world_recovers = \<lparr> NewRequest = None,
      clientDo = (\<lambda>k. if k < 2 then DoResponse resp_busy else DoResponse resp_ok),
      ctxDone = (\<lambda>k. None), ParseDuration = no_durations \<rparr>"

text \<open>Three refused connections, then 502 for ever.\<close>

definition world_down :: world where
  "world_down = \<lparr> NewRequest = None,
      clientDo = (\<lambda>k. if k < 3 then DoError (ErrOpaque ''connection refused'')
         else DoResponse \<lparr> StatusCode = 502, Status = ''502 Bad Gateway'',
                RetryAfterHeader = [], ReadAll = Inr ''gateway'' \<rparr>),
      ctxDone = (\<lambda>k. None), ParseDuration = no_durations \<rparr>"

text \<open>201 on the first attempt.\<close>

definition world_created :: world where
  "world_created = \<lparr> NewRequest = None,
      clientDo = (\<lambda>k. DoResponse \<lparr> StatusCode = 201, Status = ''201 Created'',
                RetryAfterHeader = [], ReadAll = Inr ''data'' \<rparr>),
      ctxDone = (\<lambda>k. None), ParseDuration = no_durations \<rparr>"

text \<open>404 on the first attempt.\<close>

definition world_missing :: world where
  "world_missing = \<lparr> NewRequest = None,
      clientDo = (\<lambda>k. DoResponse resp_missing),
      ctxDone = (\<lambda>k. None), ParseDuration = no_durations \<rparr>"

section \<open>Domain types (internal/models) and Go arithmetic\<close>

text \<open>
  \<^verbatim>\<open>float64\<close> values (prices, percentages) are modelled as real numbers: comparisons
  are those of the source on finite values, arithmetic is exact, and there is no NaN or
  infinity. \<^verbatim>\<open>int(x)\<close> on a \<^verbatim>\<open>float64\<close> truncates toward zero, and so does \<^verbatim>\<open>/\<close>
  on integers.
\<close>

definition go_int :: "real \<Rightarrow> int" where
  "go_int x = (if x \<ge> 0 then \<lfloor>x\<rfloor> else \<lceil>x\<rceil>)"

definition quot :: "int \<Rightarrow> int \<Rightarrow> int" where
  "quot a b = (if (a < 0) = (b < 0) then \<bar>a\<bar> div \<bar>b\<bar> else - (\<bar>a\<bar> div \<bar>b\<bar>))"

text \<open>
  Modelled from the spec: the type \<^verbatim>\<open>models.TimeRange\<close> (package internal/models is
  not among the sources). The spec gives the enumeration \<open>{1H, 24H, 7D, 30D}\<close>; the
  strings are those \<^verbatim>\<open>app.New\<close> matches the configured default range against.
\<close>

datatype TimeRange = Range1H | Range24H | Range7D | Range30D

fun rangeString :: "TimeRange \<Rightarrow> string" where
  "rangeString Range1H = ''1H''"
| "rangeString Range24H = ''24H''"
| "rangeString Range7D = ''7D''"
| "rangeString Range30D = ''30D''"

text \<open>
  Modelled from the spec: the types \<^verbatim>\<open>models.Candle\<close> and \<^verbatim>\<open>models.Quote\<close>, with
  the fields the sources read. The candle's period timestamp is never read by them.
\<close>

record Candle =
  Open :: real
  High :: real
  Low :: real
  Close :: real

record Quote =
  Symbol :: string
  Price :: real
  ChangePct :: real

section \<open>Messages and commands of the event loop (internal/app/app.go)\<close>

datatype MouseAction = MouseActionPress | MouseActionRelease | MouseActionMotion

datatype MouseButton = MouseButtonNone | MouseButtonLeft | MouseButtonMiddle | MouseButtonRight

text \<open>
  The messages \<^verbatim>\<open>Update\<close> switches on. \<open>MouseMsg x y action button\<close> and
  \<open>WindowSizeMsg width height\<close> carry the fields the sources read, \<open>KeyMsg\<close> carries
  \<^verbatim>\<open>msg.String()\<close>, and \<open>OtherMsg\<close> stands for every other message type.
\<close>

datatype msg =
    MouseMsg int int MouseAction MouseButton
  | WindowSizeMsg int int
  | KeyMsg string
  | tickMsg
  | quotesMsg "Quote list" "error option"
  | historyMsg string TimeRange "Candle list" "error option"
  | retryHistoryMsg string TimeRange
  | OtherMsg nat

text \<open>
  The commands \<^verbatim>\<open>Update\<close> hands to the runtime. \<open>Tick d m\<close> is \<^verbatim>\<open>tea.Tick\<close> with a
  callback that returns the message \<open>m\<close> after the duration \<open>d\<close>; \<open>WidgetCmd\<close> is a
  command returned by one of the widgets, opaque to the application. A batch is the list
  of its commands, a \<^verbatim>\<open>nil\<close> command being left out.
\<close>

datatype cmd =
    Quit
  | fetchQuotes
  | fetchHistory string TimeRange
  | waitForTick
  | Tick Duration msg
  | WidgetCmd nat

definition widget_cmd :: "nat option \<Rightarrow> cmd list" where
  "widget_cmd c = (case c of None \<Rightarrow> [] | Some x \<Rightarrow> [WidgetCmd x])"

text \<open>\<^verbatim>\<open>errors.As(err, &rateLimitErr)\<close>: the first \<open>RateLimitError\<close> in the chain.\<close>

fun asRateLimitError :: "error \<Rightarrow> Duration option" where
  "asRateLimitError (RateLimitError d) = Some d"
| "asRateLimitError (AfterRetries n e) = asRateLimitError e"
| "asRateLimitError (ErrWrap s e) = asRateLimitError e"
| "asRateLimitError (ErrOpaque s) = None"
| "asRateLimitError (httpError code st) = None"

section \<open>Watchlist (internal/ui/watchlist/watchlist.go)\<close>

record item =
  item_symbol :: string
  price :: real
  changePct :: real

text \<open>
  The list widget (\<^verbatim>\<open>bubbles/list\<close>) is not part of the repository. Its state is a type
  parameter \<open>'l\<close> and the operations the sources call are the fields of this record;
  \<open>list_SelectedItem\<close> is \<^verbatim>\<open>SelectedItem()\<close> asserted to \<^verbatim>\<open>item\<close>, \<open>list_Page\<close> and
  \<open>list_PerPage\<close> read the paginator.
\<close>

record 'l listWidget =
  list_Update :: "msg \<Rightarrow> 'l \<Rightarrow> 'l \<times> nat option"
  list_SelectedItem :: "'l \<Rightarrow> item option"
  list_Items :: "'l \<Rightarrow> item list"
  list_SetItems :: "item list \<Rightarrow> 'l \<Rightarrow> 'l"
  list_Select :: "int \<Rightarrow> 'l \<Rightarrow> 'l"
  list_Height :: "'l \<Rightarrow> int"
  list_Page :: "'l \<Rightarrow> int"
  list_PerPage :: "'l \<Rightarrow> int"
  list_SetSize :: "int \<Rightarrow> int \<Rightarrow> 'l \<Rightarrow> 'l"

record 'l watchlist_Model =
  wl_list :: 'l
  wl_width :: int
  wl_height :: int

definition watchlist_click :: "'l listWidget \<Rightarrow> int \<Rightarrow> int \<Rightarrow> 'l watchlist_Model \<Rightarrow> 'l" where
  "watchlist_click lw x y m =
     (if x \<ge> 0 \<and> x < wl_width m \<and> y \<ge> 0 \<and> y < wl_height m then
        (if list_Height lw (wl_list m) > 0 \<and> list_Height lw (wl_list m) \<le> wl_height m then
           (let topOffset0 = quot (wl_height m - list_Height lw (wl_list m)) 2;
                topOffset = (if topOffset0 < 0 then 0 else topOffset0)
            in if y \<ge> topOffset \<and> y < topOffset + list_Height lw (wl_list m) then
                 (let localIndex = y - topOffset;
                      index = localIndex + list_Page lw (wl_list m) * list_PerPage lw (wl_list m)
                  in if index \<ge> 0 \<and> index < int (length (list_Items lw (wl_list m)))
                     then list_Select lw index (wl_list m)
                     else wl_list m)
               else wl_list m)
         else wl_list m)
      else wl_list m)"

definition watchlist_Update ::
  "'l listWidget \<Rightarrow> msg \<Rightarrow> 'l watchlist_Model \<Rightarrow> 'l watchlist_Model \<times> nat option" where
  "watchlist_Update lw m0 m =
     (let l1 = (case m0 of
                  MouseMsg x y action button \<Rightarrow>
                    if action = MouseActionPress \<and> button = MouseButtonLeft
                    then watchlist_click lw x y m
                    else wl_list m
                | _ \<Rightarrow> wl_list m)
      in (m \<lparr> wl_list := fst (list_Update lw m0 l1) \<rparr>, snd (list_Update lw m0 l1)))"

definition watchlist_SetSize :: "'l listWidget \<Rightarrow> int \<Rightarrow> int \<Rightarrow> 'l watchlist_Model \<Rightarrow> 'l watchlist_Model" where
  "watchlist_SetSize lw w h m =
     m \<lparr> wl_width := w, wl_height := h, wl_list := list_SetSize lw (w - 4) (h - 2) (wl_list m) \<rparr>"

text \<open>The map \<^verbatim>\<open>qmap\<close>: a later quote for a symbol replaces an earlier one.\<close>

definition quoteMap :: "Quote list \<Rightarrow> (string \<rightharpoonup> Quote)" where
  "quoteMap quotes = foldl (\<lambda>qmap q. qmap(Symbol q \<mapsto> q)) Map.empty quotes"

definition UpdateQuotes_items :: "Quote list \<Rightarrow> item list \<Rightarrow> item list" where
  "UpdateQuotes_items quotes items =
     map (\<lambda>row. case quoteMap quotes (item_symbol row) of
                    Some q \<Rightarrow> row \<lparr> price := Price q, changePct := ChangePct q \<rparr>
                  | None \<Rightarrow> row) items"

definition UpdateQuotes :: "'l listWidget \<Rightarrow> Quote list \<Rightarrow> 'l watchlist_Model \<Rightarrow> 'l watchlist_Model" where
  "UpdateQuotes lw quotes m =
     m \<lparr> wl_list := list_SetItems lw (UpdateQuotes_items quotes (list_Items lw (wl_list m))) (wl_list m) \<rparr>"

text \<open>
  The loop of \<^verbatim>\<open>UpdatePriceChange\<close> over the rows: the first row with the symbol is
  rewritten and the loop breaks.
\<close>

fun UpdatePriceChange_items :: "string \<Rightarrow> real \<Rightarrow> real \<Rightarrow> item list \<Rightarrow> item list" where
  "UpdatePriceChange_items symbol currentPrice startPrice [] = []"
| "UpdatePriceChange_items symbol currentPrice startPrice (row # rest) =
     (if item_symbol row = symbol then
        (if startPrice > 0
         then row \<lparr> price := currentPrice,
                     changePct := ((currentPrice - startPrice) / startPrice) * 100 \<rparr>
         else row \<lparr> price := currentPrice \<rparr>) # rest
      else row # UpdatePriceChange_items symbol currentPrice startPrice rest)"

definition UpdatePriceChange ::
  "'l listWidget \<Rightarrow> string \<Rightarrow> real \<Rightarrow> real \<Rightarrow> 'l watchlist_Model \<Rightarrow> 'l watchlist_Model" where
  "UpdatePriceChange lw symbol currentPrice startPrice m =
     m \<lparr> wl_list := list_SetItems lw
           (UpdatePriceChange_items symbol currentPrice startPrice (list_Items lw (wl_list m)))
           (wl_list m) \<rparr>"

definition SelectedSymbol :: "'l listWidget \<Rightarrow> 'l watchlist_Model \<Rightarrow> string" where
  "SelectedSymbol lw m =
     (case list_SelectedItem lw (wl_list m) of Some it \<Rightarrow> item_symbol it | None \<Rightarrow> [])"

section \<open>Chart (internal/ui/chart/chart.go)\<close>

datatype ChartType = ChartLine | ChartArea | ChartCandle

record chart_Model =
  width :: int
  height :: int
  symbol :: string
  timeRange :: TimeRange
  chartType :: ChartType
  data :: "Candle list"
  loading :: bool
  err :: "error option"
  stale :: bool
  retryAfter :: Duration

definition chart_New :: chart_Model where
  "chart_New = \<lparr> width = 0, height = 0, symbol = [], timeRange = Range24H,
                 chartType = ChartLine, data = [], loading = False, err = None,
                 stale = False, retryAfter = 0 \<rparr>"

definition chart_Update :: "msg \<Rightarrow> chart_Model \<Rightarrow> chart_Model \<times> nat option" where
  "chart_Update m0 m = (m, None)"

definition SetSize :: "int \<Rightarrow> int \<Rightarrow> chart_Model \<Rightarrow> chart_Model" where
  "SetSize w h m = m \<lparr> width := w, height := h \<rparr>"

definition SetData :: "string \<Rightarrow> TimeRange \<Rightarrow> Candle list \<Rightarrow> chart_Model \<Rightarrow> chart_Model" where
  "SetData symb tr d m =
     m \<lparr> symbol := symb, timeRange := tr, data := d, loading := False, err := None,
         stale := False, retryAfter := 0 \<rparr>"

definition SetStale :: "Duration \<Rightarrow> chart_Model \<Rightarrow> chart_Model" where
  "SetStale d m = m \<lparr> stale := True, retryAfter := d, loading := False, err := None \<rparr>"

definition SetLoading :: "bool \<Rightarrow> chart_Model \<Rightarrow> chart_Model" where
  "SetLoading b m = m \<lparr> loading := b \<rparr>"

definition SetError :: "error option \<Rightarrow> chart_Model \<Rightarrow> chart_Model" where
  "SetError e m = m \<lparr> err := e, loading := False, stale := False \<rparr>"

fun nextChartType :: "ChartType \<Rightarrow> ChartType" where
  "nextChartType ChartLine = ChartArea"
| "nextChartType ChartArea = ChartCandle"
| "nextChartType ChartCandle = ChartLine"

definition CycleChartType :: "chart_Model \<Rightarrow> chart_Model" where
  "CycleChartType m = m \<lparr> chartType := nextChartType (chartType m) \<rparr>"

subsection \<open>The scaling step of \<^verbatim>\<open>render\<close>\<close>

definition chartH :: "chart_Model \<Rightarrow> int" where
  "chartH m = height m - 8"

definition chartW :: "chart_Model \<Rightarrow> int" where
  "chartW m = width m - 14"

text \<open>The guard that makes \<^verbatim>\<open>render\<close> return \<^verbatim>\<open>"Too small"\<close>.\<close>

definition tooSmall :: "chart_Model \<Rightarrow> bool" where
  "tooSmall m = (chartW m < 10 \<or> chartH m < 4)"

text \<open>The scan for \<^verbatim>\<open>minP\<close> and \<^verbatim>\<open>maxP\<close>, both started at \<^verbatim>\<open>closes[0]\<close>.\<close>

fun minmax :: "real \<Rightarrow> real \<Rightarrow> real list \<Rightarrow> real \<times> real" where
  "minmax lo hi [] = (lo, hi)"
| "minmax lo hi (p # ps) =
     minmax (if p > 0 \<and> p < lo then p else lo) (if p > hi then p else hi) ps"

definition closeBounds :: "Candle list \<Rightarrow> real \<times> real" where
  "closeBounds d = minmax (Close (d ! 0)) (Close (d ! 0)) (map Close d)"

record scaling =
  minP :: real
  maxP :: real
  spread :: real

text \<open>Lines 132 to 138: the synthesized spread, the padding, the recomputed spread.\<close>

definition padded :: "real \<Rightarrow> real \<Rightarrow> scaling" where
  "padded lo hi =
     (let spread0 = hi - lo;
          spread1 = (if spread0 = 0 then hi * 0.01 else spread0);
          lo1 = lo - spread1 * 0.05;
          hi1 = hi + spread1 * 0.05
      in \<lparr> minP = lo1, maxP = hi1, spread = hi1 - lo1 \<rparr>)"

text \<open>
  The scaling \<^verbatim>\<open>render\<close> computes: none when the pane is too small, none when there is
  no data (the source would index an empty slice; \<^verbatim>\<open>View\<close> never calls it so).
\<close>

definition render_scaling :: "chart_Model \<Rightarrow> scaling option" where
  "render_scaling m =
     (if tooSmall m then None
      else if data m = [] then None
      else Some (padded (fst (closeBounds (data m))) (snd (closeBounds (data m)))))"

definition toRow :: "int \<Rightarrow> scaling \<Rightarrow> real \<Rightarrow> int" where
  "toRow h s p =
     (let r = go_int ((maxP s - p) / spread s * of_int (h - 1));
          r1 = (if r < 0 then 0 else r)
      in if r1 \<ge> h then h - 1 else r1)"

subsection \<open>Candle mode: one bucket per column\<close>

record bucket =
  b_open :: real
  b_close :: real
  b_high :: real
  b_low :: real

text \<open>The inner loop over the candles of a bucket, updating \<^verbatim>\<open>high\<close> and \<^verbatim>\<open>low\<close>.\<close>

fun scan_bucket :: "real \<Rightarrow> real \<Rightarrow> Candle list \<Rightarrow> real \<times> real" where
  "scan_bucket hi lo [] = (hi, lo)"
| "scan_bucket hi lo (c # cs) =
     scan_bucket (if High c > hi then High c else hi)
                 (if Low c < lo \<and> Low c > 0 then Low c else lo) cs"

definition candlesPerCol :: "Candle list \<Rightarrow> int \<Rightarrow> nat" where
  "candlesPerCol d w = nat (max 1 (quot (int (length d)) w))"

text \<open>The candles with indices \<open>start, \<dots>, end - 1\<close>.\<close>

definition bucket_candles :: "Candle list \<Rightarrow> nat \<Rightarrow> nat \<Rightarrow> Candle list" where
  "bucket_candles d start end = take (end - start) (drop start d)"

definition bucket_at :: "Candle list \<Rightarrow> nat \<Rightarrow> nat \<Rightarrow> bucket" where
  "bucket_at d start end =
     \<lparr> b_open = Open (d ! start),
       b_close = Close (d ! (end - 1)),
       b_high = fst (scan_bucket (High (d ! start)) (Low (d ! start)) (bucket_candles d start end)),
       b_low = snd (scan_bucket (High (d ! start)) (Low (d ! start)) (bucket_candles d start end)) \<rparr>"

text \<open>The bucket of column \<open>col\<close>; none where the loop over the columns breaks.\<close>

definition candle_column :: "Candle list \<Rightarrow> int \<Rightarrow> nat \<Rightarrow> bucket option" where
  "candle_column d w col =
     (let start = col * candlesPerCol d w;
          end = min (start + candlesPerCol d w) (length d)
      in if start \<ge> length d then None else Some (bucket_at d start end))"

fun candle_loop :: "Candle list \<Rightarrow> int \<Rightarrow> nat list \<Rightarrow> bucket list" where
  "candle_loop d w [] = []"
| "candle_loop d w (col # cols) =
     (case candle_column d w col of
        None \<Rightarrow> []
      | Some b \<Rightarrow> b # candle_loop d w cols)"

definition candle_buckets :: "chart_Model \<Rightarrow> bucket list" where
  "candle_buckets m = candle_loop (data m) (chartW m) [0..<nat (chartW m)]"

definition isUp :: "bucket \<Rightarrow> bool" where
  "isUp b = (b_close b \<ge> b_open b)"

section \<open>State orchestrator (internal/app/app.go)\<close>

text \<open>
  The help overlay (package internal/ui/help) is not among the sources: its state is a
  type parameter \<open>'h\<close> and the operations \<^verbatim>\<open>Update\<close> calls are the fields of this
  record.
\<close>

record 'h helpWidget =
  help_Visible :: "'h \<Rightarrow> bool"
  help_Update :: "msg \<Rightarrow> 'h \<Rightarrow> 'h \<times> nat option"
  help_Toggle :: "'h \<Rightarrow> 'h"
  help_SetSize :: "int \<Rightarrow> int \<Rightarrow> 'h \<Rightarrow> 'h"

text \<open>
  The fields of \<^verbatim>\<open>AppModel\<close> that \<^verbatim>\<open>Update\<close> reads. The footer is only written to
  (status, time range, size), the provider and the ticker are used by the commands, not
  by \<^verbatim>\<open>Update\<close>; they are left out.
\<close>

record ('l, 'h) AppModel =
  watchlist :: "'l watchlist_Model"
  chart :: chart_Model
  app_help :: 'h
  app_width :: int
  app_height :: int
  app_timeRange :: TimeRange
  lastQuotes :: "Quote list"
  lastHistory :: "string \<rightharpoonup> Candle list"
  app_err :: "error option"

definition cacheKey :: "string \<Rightarrow> TimeRange \<Rightarrow> string" where
  "cacheKey symb tr = symb @ ''|'' @ rangeString tr"

text \<open>\<^verbatim>\<open>ranges[(i+1)%len(ranges)]\<close> for the position \<open>i\<close> of the active range.\<close>

fun nextRange :: "TimeRange \<Rightarrow> TimeRange" where
  "nextRange Range1H = Range24H"
| "nextRange Range24H = Range7D"
| "nextRange Range7D = Range30D"
| "nextRange Range30D = Range1H"

definition cycleTimeRange :: "('l, 'h) AppModel \<Rightarrow> ('l, 'h) AppModel" where
  "cycleTimeRange m = m \<lparr> app_timeRange := nextRange (app_timeRange m) \<rparr>"

definition setTimeRange :: "TimeRange \<Rightarrow> ('l, 'h) AppModel \<Rightarrow> ('l, 'h) AppModel" where
  "setTimeRange tr m = (if app_timeRange m = tr then m else m \<lparr> app_timeRange := tr \<rparr>)"

definition refreshCurrentChart ::
  "'l listWidget \<Rightarrow> ('l, 'h) AppModel \<Rightarrow> ('l, 'h) AppModel \<times> cmd list" where
  "refreshCurrentChart lw m =
     (let sel = SelectedSymbol lw (watchlist m)
      in if sel = [] then (m, [])
         else (m \<lparr> chart := SetLoading True (chart m) \<rparr>, [fetchHistory sel (app_timeRange m)]))"

definition loadCurrentChart ::
  "'l listWidget \<Rightarrow> ('l, 'h) AppModel \<Rightarrow> ('l, 'h) AppModel \<times> cmd list" where
  "loadCurrentChart lw m =
     (let sel = SelectedSymbol lw (watchlist m)
      in if sel = [] then (m, [])
         else (case lastHistory m (cacheKey sel (app_timeRange m)) of
                 Some cached \<Rightarrow> (m \<lparr> chart := SetData sel (app_timeRange m) cached (chart m) \<rparr>, [])
               | None \<Rightarrow> (m \<lparr> chart := SetLoading True (chart m) \<rparr>,
                          [fetchHistory sel (app_timeRange m)])))"

text \<open>Lines 129 to 146: while the help overlay is visible, every path returns.\<close>

definition Update_help ::
  "'h helpWidget \<Rightarrow> msg \<Rightarrow> ('l, 'h) AppModel \<Rightarrow> ('l, 'h) AppModel \<times> cmd list" where
  "Update_help hw m0 m =
     (let m1 = m \<lparr> app_help := fst (help_Update hw m0 (app_help m)) \<rparr>;
          cmds = widget_cmd (snd (help_Update hw m0 (app_help m)))
      in if \<not> help_Visible hw (app_help m1) then (m1, cmds)
         else (case m0 of
                 WindowSizeMsg w h \<Rightarrow>
                   (m1 \<lparr> app_width := w, app_height := h, app_help := help_SetSize hw w h (app_help m1) \<rparr>,
                    cmds)
               | _ \<Rightarrow> (m1, cmds)))"

definition on_WindowSize ::
  "'l listWidget \<Rightarrow> 'h helpWidget \<Rightarrow> int \<Rightarrow> int \<Rightarrow> ('l, 'h) AppModel \<Rightarrow> ('l, 'h) AppModel" where
  "on_WindowSize lw hw w h m =
     (let footerHeight = 1;
          mainHeight = h - footerHeight;
          wlWidth0 = go_int (of_int w * 0.28);
          wlWidth1 = (if wlWidth0 < 30 then 30 else wlWidth0);
          wlWidth = (if wlWidth1 > 45 then 45 else wlWidth1);
          chartWidth = w - wlWidth
      in m \<lparr> app_width := w, app_height := h,
             watchlist := watchlist_SetSize lw wlWidth mainHeight (watchlist m),
             chart := SetSize chartWidth mainHeight (chart m),
             app_help := help_SetSize hw w h (app_help m) \<rparr>)"

text \<open>
  The cases of the \<^verbatim>\<open>switch\<close>. Each gives the new model, the commands so far, and
  whether the case returned from \<^verbatim>\<open>Update\<close> (\<open>True\<close>) or fell out of the switch.
\<close>

definition on_Key ::
  "'l listWidget \<Rightarrow> 'h helpWidget \<Rightarrow> string \<Rightarrow> ('l, 'h) AppModel
     \<Rightarrow> ('l, 'h) AppModel \<times> cmd list \<times> bool" where
  "on_Key lw hw k m =
     (if k = ''q'' \<or> k = ''ctrl+c'' then (m, [Quit], True)
      else if k = ''?'' then (m \<lparr> app_help := help_Toggle hw (app_help m) \<rparr>, [], True)
      else if k = ''tab'' then
        (fst (loadCurrentChart lw (cycleTimeRange m)),
         snd (loadCurrentChart lw (cycleTimeRange m)), True)
      else if k = ''1'' then
        (fst (loadCurrentChart lw (setTimeRange Range1H m)),
         snd (loadCurrentChart lw (setTimeRange Range1H m)), True)
      else if k = ''2'' then
        (fst (loadCurrentChart lw (setTimeRange Range24H m)),
         snd (loadCurrentChart lw (setTimeRange Range24H m)), True)
      else if k = ''3'' then
        (fst (loadCurrentChart lw (setTimeRange Range7D m)),
         snd (loadCurrentChart lw (setTimeRange Range7D m)), True)
      else if k = ''4'' then
        (fst (loadCurrentChart lw (setTimeRange Range30D m)),
         snd (loadCurrentChart lw (setTimeRange Range30D m)), True)
      else if k = ''r'' then
        (fst (refreshCurrentChart lw m), fetchQuotes # snd (refreshCurrentChart lw m), True)
      else if k = ''c'' then (m \<lparr> chart := CycleChartType (chart m) \<rparr>, [], True)
      else (m, [], False))"

definition on_Mouse ::
  "'l listWidget \<Rightarrow> int \<Rightarrow> int \<Rightarrow> MouseAction \<Rightarrow> MouseButton \<Rightarrow> ('l, 'h) AppModel
     \<Rightarrow> ('l, 'h) AppModel \<times> cmd list \<times> bool" where
  "on_Mouse lw x y action button m =
     (if action = MouseActionPress \<and> button = MouseButtonLeft then
        (if y = app_height m - 1 then
           (fst (refreshCurrentChart lw (cycleTimeRange m)),
            snd (refreshCurrentChart lw (cycleTimeRange m)), True)
         else (m, [], False))
      else (m, [], False))"

definition on_quotes ::
  "'l listWidget \<Rightarrow> Quote list \<Rightarrow> error option \<Rightarrow> ('l, 'h) AppModel
     \<Rightarrow> ('l, 'h) AppModel \<times> cmd list \<times> bool" where
  "on_quotes lw quotes e m =
     (case e of
        Some e1 \<Rightarrow> (m \<lparr> app_err := Some e1 \<rparr>, [], False)
      | None \<Rightarrow>
          (let m1 = m \<lparr> lastQuotes := quotes,
                        watchlist := UpdateQuotes lw quotes (watchlist m),
                        app_err := None \<rparr>;
               sel = SelectedSymbol lw (watchlist m1)
           in if sel \<noteq> [] then
                (case lastHistory m1 (cacheKey sel (app_timeRange m1)) of
                   None \<Rightarrow> (m1 \<lparr> chart := SetLoading True (chart m1) \<rparr>,
                            [fetchHistory sel (app_timeRange m1)], False)
                 | Some cached \<Rightarrow> (m1, [], False))
              else (m1, [], False)))"

definition on_retryHistory ::
  "'l listWidget \<Rightarrow> string \<Rightarrow> TimeRange \<Rightarrow> ('l, 'h) AppModel
     \<Rightarrow> ('l, 'h) AppModel \<times> cmd list \<times> bool" where
  "on_retryHistory lw symb tr m =
     ((if SelectedSymbol lw (watchlist m) = symb \<and> app_timeRange m = tr
       then m \<lparr> chart := SetLoading True (chart m) \<rparr> else m),
      [fetchHistory symb tr], False)"

text \<open>Lines 243 to 261: a history result with a rate-limit error.\<close>

definition on_history_rateLimited ::
  "'l listWidget \<Rightarrow> string \<Rightarrow> TimeRange \<Rightarrow> error \<Rightarrow> Duration \<Rightarrow> ('l, 'h) AppModel
     \<Rightarrow> ('l, 'h) AppModel \<times> cmd list \<times> bool" where
  "on_history_rateLimited lw symb tr e retry m =
     ((case lastHistory m (cacheKey symb tr) of
         Some cached \<Rightarrow>
           if SelectedSymbol lw (watchlist m) = symb \<and> app_timeRange m = tr
           then m \<lparr> chart := SetStale retry (SetData symb tr cached (chart m)) \<rparr>
           else m
       | None \<Rightarrow> m \<lparr> chart := SetError (Some e) (chart m) \<rparr>),
      [Tick retry (retryHistoryMsg symb tr)], True)"

text \<open>Lines 263 to 275: a successful history result.\<close>

definition on_history_ok ::
  "'l listWidget \<Rightarrow> string \<Rightarrow> TimeRange \<Rightarrow> Candle list \<Rightarrow> ('l, 'h) AppModel
     \<Rightarrow> ('l, 'h) AppModel \<times> cmd list \<times> bool" where
  "on_history_ok lw symb tr d m =
     (let m1 = m \<lparr> lastHistory := (lastHistory m)(cacheKey symb tr \<mapsto> d) \<rparr>;
          m2 = (if SelectedSymbol lw (watchlist m1) = symb \<and> app_timeRange m1 = tr
                then m1 \<lparr> chart := SetData symb tr d (chart m1) \<rparr> else m1);
          m3 = (if length d > 1
                then m2 \<lparr> watchlist :=
                       UpdatePriceChange lw symb (Close (d ! (length d - 1))) (Close (d ! 0))
                         (watchlist m2) \<rparr>
                else m2)
      in (m3, [], False))"

definition on_history ::
  "'l listWidget \<Rightarrow> string \<Rightarrow> TimeRange \<Rightarrow> Candle list \<Rightarrow> error option \<Rightarrow> ('l, 'h) AppModel
     \<Rightarrow> ('l, 'h) AppModel \<times> cmd list \<times> bool" where
  "on_history lw symb tr d e m =
     (case e of
        Some e1 \<Rightarrow>
          (case asRateLimitError e1 of
             Some retry \<Rightarrow> on_history_rateLimited lw symb tr e1 retry m
           | None \<Rightarrow> (m \<lparr> chart := SetError (Some e1) (chart m) \<rparr>, [], False))
      | None \<Rightarrow> on_history_ok lw symb tr d m)"

definition Update_switch ::
  "'l listWidget \<Rightarrow> 'h helpWidget \<Rightarrow> msg \<Rightarrow> ('l, 'h) AppModel
     \<Rightarrow> ('l, 'h) AppModel \<times> cmd list \<times> bool" where
  "Update_switch lw hw m0 m =
     (case m0 of
        MouseMsg x y action button \<Rightarrow> on_Mouse lw x y action button m
      | WindowSizeMsg w h \<Rightarrow> (on_WindowSize lw hw w h m, [], False)
      | KeyMsg k \<Rightarrow> on_Key lw hw k m
      | tickMsg \<Rightarrow> (m, [fetchQuotes, waitForTick], False)
      | quotesMsg quotes e \<Rightarrow> on_quotes lw quotes e m
      | historyMsg symb tr d e \<Rightarrow> on_history lw symb tr d e m
      | retryHistoryMsg symb tr \<Rightarrow> on_retryHistory lw symb tr m
      | OtherMsg x \<Rightarrow> (m, [], False))"

text \<open>Lines 278 to 296: the widgets see the message, a changed selection is loaded.\<close>

definition Update_tail ::
  "'l listWidget \<Rightarrow> msg \<Rightarrow> ('l, 'h) AppModel \<Rightarrow> cmd list \<Rightarrow> ('l, 'h) AppModel \<times> cmd list" where
  "Update_tail lw m0 m cmds =
     (let oldSel = SelectedSymbol lw (watchlist m);
          m1 = m \<lparr> watchlist := fst (watchlist_Update lw m0 (watchlist m)) \<rparr>;
          cmds1 = cmds @ widget_cmd (snd (watchlist_Update lw m0 (watchlist m)));
          newSel = SelectedSymbol lw (watchlist m1);
          m2 = (if oldSel \<noteq> newSel \<and> newSel \<noteq> [] then
                  (case lastHistory m1 (cacheKey newSel (app_timeRange m1)) of
                     Some cached \<Rightarrow>
                       m1 \<lparr> chart := SetData newSel (app_timeRange m1) cached (chart m1) \<rparr>
                   | None \<Rightarrow> m1 \<lparr> chart := SetLoading True (chart m1) \<rparr>)
                else m1);
          cmds2 = (if oldSel \<noteq> newSel \<and> newSel \<noteq> [] then
                     (case lastHistory m1 (cacheKey newSel (app_timeRange m1)) of
                        Some cached \<Rightarrow> cmds1
                      | None \<Rightarrow> cmds1 @ [fetchHistory newSel (app_timeRange m1)])
                   else cmds1)
      in (m2 \<lparr> chart := fst (chart_Update m0 (chart m2)) \<rparr>,
          cmds2 @ widget_cmd (snd (chart_Update m0 (chart m2)))))"

definition Update ::
  "'l listWidget \<Rightarrow> 'h helpWidget \<Rightarrow> msg \<Rightarrow> ('l, 'h) AppModel \<Rightarrow> ('l, 'h) AppModel \<times> cmd list" where
  "Update lw hw m0 m =
     (if help_Visible hw (app_help m) then Update_help hw m0 m
      else (case Update_switch lw hw m0 m of
              (m1, cmds, returned) \<Rightarrow>
                if returned then (m1, cmds) else Update_tail lw m0 m1 cmds))"


section \<open>Concrete inputs of the application\<close>

definition demo_items :: "item list" where
  "demo_items = [\<lparr> item_symbol = ''AAPL'', price = 190, changePct = 1 \<rparr>,
                 \<lparr> item_symbol = ''BTC-USD'', price = 100, changePct = 2 \<rparr>]"

definition flat_candle :: "real \<Rightarrow> Candle" where
  "flat_candle p = \<lparr> Open = p, High = p, Low = p, Close = p \<rparr>"

definition demo_chart :: chart_Model where
  "demo_chart = chart_New \<lparr> width := 54, height := 18,
     data := [flat_candle 100, flat_candle 104, flat_candle 102, flat_candle 110, flat_candle 108] \<rparr>"

definition gap_candle :: Candle where
  "gap_candle = \<lparr> Open = 10, High = 12, Low = 0, Close = 11 \<rparr>"

definition full_candle :: Candle where
  "full_candle = \<lparr> Open = 11, High = 13, Low = 9, Close = 12 \<rparr>"

definition gappy_chart :: chart_Model where
  "gappy_chart = chart_New \<lparr> width := 24, height := 12, chartType := ChartCandle,
     data := gap_candle # full_candle # replicate 18 full_candle \<rparr>"

text \<open>
  Stand-ins for the two external widgets, used only to run \<open>Update\<close> on concrete
  states: a list that is its rows and a cursor, moved by the keys \<^verbatim>\<open>down\<close> and
  \<^verbatim>\<open>up\<close>, and a help overlay that is its visibility flag, closed by \<^verbatim>\<open>?\<close> and
  \<^verbatim>\<open>esc\<close>.
\<close>

definition demo_list :: "(item list \<times> nat) listWidget" where
  "demo_list =
     \<lparr> list_Update = (\<lambda>m0 l.
         ((case m0 of
             KeyMsg k \<Rightarrow>
               if k = ''down'' then (fst l, min (Suc (snd l)) (length (fst l) - 1))
               else if k = ''up'' then (fst l, snd l - 1)
               else l
           | _ \<Rightarrow> l), None)),
       list_SelectedItem = (\<lambda>l. if snd l < length (fst l) then Some (fst l ! snd l) else None),
       list_Items = fst,
       list_SetItems = (\<lambda>xs l. (xs, snd l)),
       list_Select = (\<lambda>i l. (fst l, nat i)),
       list_Height = (\<lambda>l. int (length (fst l))),
       list_Page = (\<lambda>l. 0),
       list_PerPage = (\<lambda>l. int (length (fst l))),
       list_SetSize = (\<lambda>w h l. l) \<rparr>"

definition demo_help :: "bool helpWidget" where
  "demo_help =
     \<lparr> help_Visible = (\<lambda>v. v),
       help_Update = (\<lambda>m0 v.
         ((case m0 of KeyMsg k \<Rightarrow> if k = ''?'' \<or> k = ''esc'' then False else v | _ \<Rightarrow> v),
          None)),
       help_Toggle = Not,
       help_SetSize = (\<lambda>w h v. v) \<rparr>"

definition five_candles :: "Candle list" where
  "five_candles = [flat_candle 100, flat_candle 104, flat_candle 102, flat_candle 110,
                   flat_candle 108]"

text \<open>
  An 80 by 24 terminal, the watchlist AAPL and BTC-USD with AAPL selected, the range 24H,
  the help overlay hidden, and a cached history of five candles for AAPL at 24H.
\<close>

definition demo_app :: "(item list \<times> nat, bool) AppModel" where
  "demo_app =
     \<lparr> watchlist = \<lparr> wl_list = (demo_items, 0), wl_width = 30, wl_height = 23 \<rparr>,
       chart = SetSize 50 23 chart_New,
       app_help = False,
       app_width = 80,
       app_height = 24,
       app_timeRange = Range24H,
       lastQuotes = [],
       lastHistory = [cacheKey ''AAPL'' Range24H \<mapsto> five_candles],
       app_err = None \<rparr>"


definition limited_10s :: error where
  "limited_10s = RateLimitError (10 * Second)"

definition demo_app_1H :: "(item list \<times> nat, bool) AppModel" where
  "demo_app_1H = demo_app \<lparr> app_timeRange := Range1H \<rparr>"

section \<open>Properties of the fetch client\<close>

lemma undisturbed_ctx: "undisturbed w k \<Longrightarrow> 0 < j \<Longrightarrow> j \<le> k \<Longrightarrow> ctxDone w j = None"
  by (auto simp: undisturbed_def list_all_iff)

lemma undisturbed_req: "undisturbed w k \<Longrightarrow> NewRequest w = None"
  by (simp add: undisturbed_def)

lemma undisturbed_mono: "undisturbed w k \<Longrightarrow> j \<le> k \<Longrightarrow> undisturbed w j"
  by (auto simp: undisturbed_def list_all_iff)

lemma attempt_body_sent:
  assumes "NewRequest w = None" "0 < j \<longrightarrow> ctxDone w j = None"
  shows "attempt_body w opts j =
           (attempt_events opts j,
            case clientDo w j of DoError e \<Rightarrow> Continue e | DoResponse r \<Rightarrow> classify w r)"
  using assms by (cases "clientDo w j") (auto simp: attempt_body_def send_def attempt_events_def)

lemma classify_retryable:
  "retryable_failure (DoResponse r) \<Longrightarrow> classify w r = Continue (cause_of (DoResponse r))"
  by (auto simp: classify_def split: sum.splits)

lemma attempt_body_retry:
  assumes "NewRequest w = None" "0 < j \<longrightarrow> ctxDone w j = None" "retryable_failure (clientDo w j)"
  shows "attempt_body w opts j = (attempt_events opts j, Continue (cause_of (clientDo w j)))"
  using assms classify_retryable[of _ w]
  by (cases "clientDo w j") (simp_all add: attempt_body_sent)

lemma trace_Cons: "a < b \<Longrightarrow> trace opts a b = attempt_events opts a @ trace opts (Suc a) b"
  by (simp add: trace_def upt_conv_Cons)

lemma trace_empty [simp]: "trace opts a a = []"
  by (simp add: trace_def)

lemma trace_snoc: "trace opts a (Suc (a + n)) = trace opts a (a + n) @ attempt_events opts (a + n)"
  by (simp add: trace_def)

text \<open>
  A run of retryable failures from attempt \<open>a\<close> to attempt \<open>a + n - 1\<close> leaves the loop at
  attempt \<open>a + n\<close> with the last failure's cause in \<open>lastErr\<close>, having slept and sent once
  per attempt.
\<close>

lemma fetch_loop_retries:
  assumes "undisturbed w (a + n - 1)"
    and "\<forall>j. a \<le> j \<and> j < a + n \<longrightarrow> retryable_failure (clientDo w j)"
    and "int (a + n) \<le> MaxRetries opts + 1" and "0 < n"
  shows "fetch_loop w opts a le =
           (trace opts a (a + n) @
              fst (fetch_loop w opts (a + n) (Some (cause_of (clientDo w (a + n - 1))))),
            snd (fetch_loop w opts (a + n) (Some (cause_of (clientDo w (a + n - 1))))))"
  using assms
proof (induction n arbitrary: a le)
  case 0
  then show ?case by simp
next
  case (Suc n)
  have body: "attempt_body w opts a = (attempt_events opts a, Continue (cause_of (clientDo w a)))"
    using Suc.prems by (intro attempt_body_retry) (auto simp: undisturbed_req undisturbed_ctx)
  have le: "int a \<le> MaxRetries opts" using Suc.prems by simp
  have step: "fetch_loop w opts a le =
      (attempt_events opts a @ fst (fetch_loop w opts (Suc a) (Some (cause_of (clientDo w a)))),
       snd (fetch_loop w opts (Suc a) (Some (cause_of (clientDo w a)))))"
    by (subst fetch_loop.simps) (simp add: body le)
  show ?case
  proof (cases n)
    case 0
    then show ?thesis using step by (simp add: trace_Cons)
  next
    case (Suc m)
    have "fetch_loop w opts (Suc a) (Some (cause_of (clientDo w a))) =
           (trace opts (Suc a) (Suc a + n) @
              fst (fetch_loop w opts (Suc a + n) (Some (cause_of (clientDo w (Suc a + n - 1))))),
            snd (fetch_loop w opts (Suc a + n) (Some (cause_of (clientDo w (Suc a + n - 1))))))"
      using Suc.prems Suc by (intro Suc.IH) auto
    then show ?thesis using step by (simp add: trace_Cons)
  qed
qed

lemma fetch_optionsOf: "fetch w opts = fetch_loop w (optionsOf opts) 0 None"
  by (simp add: fetch_def optionsOf_def split: option.splits)

lemma fetch_loop_return:
  assumes "undisturbed w k" and "int k \<le> MaxRetries opts"
    and "clientDo w k = DoResponse r" and "classify w r = Return res"
  shows "fetch_loop w opts k le = (attempt_events opts k, res)"
proof -
  have "attempt_body w opts k = (attempt_events opts k, Return res)"
    using assms undisturbed_ctx[of w k k] by (simp add: attempt_body_sent undisturbed_req)
  then show ?thesis using assms(2) by (subst fetch_loop.simps) simp
qed

lemma fetch_returns_at:
  assumes "undisturbed w k" and "\<forall>j<k. retryable_failure (clientDo w j)"
    and "int k \<le> MaxRetries (optionsOf opts)"
    and "clientDo w k = DoResponse r" and "classify w r = Return res"
  shows "fetch w opts = (trace (optionsOf opts) 0 k @ attempt_events (optionsOf opts) k, res)"
proof (cases k)
  case 0
  then show ?thesis using assms fetch_loop_return[of w 0 "optionsOf opts" r res None]
    by (simp add: fetch_optionsOf)
next
  case (Suc m)
  have "fetch_loop w (optionsOf opts) 0 None =
      (trace (optionsOf opts) 0 (0 + k) @
         fst (fetch_loop w (optionsOf opts) (0 + k) (Some (cause_of (clientDo w (0 + k - 1))))),
       snd (fetch_loop w (optionsOf opts) (0 + k) (Some (cause_of (clientDo w (0 + k - 1))))))"
    using assms undisturbed_mono[OF assms(1), of "k - 1"] Suc by (intro fetch_loop_retries) auto
  then show ?thesis
    using fetch_loop_return[OF assms(1) assms(3) assms(4) assms(5)]
    by (simp add: fetch_optionsOf)
qed

lemma delay_default:
  "delay defaultFetchOptions (Suc 0) = 500 * Millisecond"
  "delay defaultFetchOptions (Suc (Suc 0)) = 1000 * Millisecond"
  "delay defaultFetchOptions (Suc (Suc (Suc 0))) = 2000 * Millisecond"
  by (simp_all add: delay_def defaultFetchOptions_def wrap64_def Millisecond_def)

lemma attempt_body_Do_count: "length (filter isDo (fst (attempt_body w opts k))) \<le> 1"
  by (auto simp: attempt_body_def send_def split: option.splits doResult.splits)

lemma fetch_loop_Do_count:
  "int (length (filter isDo (fst (fetch_loop w opts a le)))) \<le> max 0 (MaxRetries opts + 1 - int a)"
proof (induction w opts a le rule: fetch_loop.induct)
  case (1 w opts attempt lastErr)
  show ?case
  proof (cases "int attempt \<le> MaxRetries opts")
    case False
    then show ?thesis by (subst fetch_loop.simps) simp
  next
    case True
    note b = attempt_body_Do_count[of w opts attempt]
    show ?thesis
    proof (cases "snd (attempt_body w opts attempt)")
      case (Return r)
      then show ?thesis using True b by (subst fetch_loop.simps) simp
    next
      case (Continue e)
      have "int (length (filter isDo (fst (fetch_loop w opts (Suc attempt) (Some e)))))
              \<le> max 0 (MaxRetries opts + 1 - int (Suc attempt))"
        by (rule "1.IH"[OF True Continue])
      then show ?thesis using True b Continue by (subst fetch_loop.simps) simp
    qed
  qed
qed

lemma default_trace_prefix:
  "n \<le> 3 \<Longrightarrow> trace defaultFetchOptions 0 n @ attempt_events defaultFetchOptions n
                = take (2 * n + 1) default_trace"
proof -
  assume "n \<le> 3"
  then consider "n = 0" | "n = 1" | "n = 2" | "n = 3" by linarith
  then show ?thesis
    by cases (simp_all add: trace_def attempt_events_def default_trace_def delay_default
        numeral_2_eq_2 numeral_3_eq_3)
qed

text \<open>
  C1 (as amended). Whenever attempt \<open>k\<close> is reached after \<open>k\<close> retryable failures and its
  response has status 429 and a body that was read without error, \<open>fetch\<close> returns a
  \<open>RateLimitError\<close> right after that request: the trace ends with the request of attempt
  \<open>k\<close>, so nothing is slept or sent afterwards. The error carries what
  \<^verbatim>\<open>time.ParseDuration\<close> makes of the Retry-After header followed by \<^verbatim>\<open>"s"\<close>, and
  60 seconds when the header is empty or absent or does not parse.
\<close>

theorem fetch_rate_limited:
  assumes "undisturbed w k" and "\<forall>j<k. retryable_failure (clientDo w j)"
    and "int k \<le> MaxRetries (optionsOf opts)"
    and "clientDo w k = DoResponse r" and "StatusCode r = 429" and "ReadAll r = Inr body"
  shows "fetch w opts =
           (trace (optionsOf opts) 0 k @ attempt_events (optionsOf opts) k,
            Inl (RateLimitError
              (if RetryAfterHeader r = [] then 60 * Second
               else case ParseDuration w (RetryAfterHeader r @ ''s'') of
                      Inr d \<Rightarrow> d | Inl e \<Rightarrow> 60 * Second)))"
proof -
  have "classify w r = Return (Inl (RateLimitError
              (if RetryAfterHeader r = [] then 60 * Second
               else case ParseDuration w (RetryAfterHeader r @ ''s'') of
                      Inr d \<Rightarrow> d | Inl e \<Rightarrow> 60 * Second)))"
    using assms(5,6) by (simp add: classify_def retryAfterOf_def)
  with assms(1-4) show ?thesis by (rule fetch_returns_at)
qed

text \<open>The theorem at work: 503, then 429 with \<^verbatim>\<open>Retry-After: 30\<close>.\<close>

theorem fetch_rate_limited_witness:
  "fetch world_limited None =
     ([Do 0, Slept (500 * Millisecond), Do 1], Inl (RateLimitError (30 * Second)))"
  using fetch_rate_limited[of world_limited 1 None resp_limited "''slow down''"]
  by (simp add: world_limited_def resp_limited_def resp_busy_def seconds_30_def undisturbed_def
        optionsOf_def defaultFetchOptions_def trace_def attempt_events_def delay_def wrap64_def
        Millisecond_def Second_def)

text \<open>
  C1 as stated fails: a response with status 429 whose body cannot be read is treated as
  a transport failure. The loop sleeps 500ms, sends a second request and here returns
  its body.
\<close>

theorem fetch_429_unread_body_retried:
  "StatusCode (resp_limited \<lparr> ReadAll := Inl (ErrOpaque ''unexpected EOF'') \<rparr>) = 429 \<and>
   clientDo world_unread 0 =
     DoResponse (resp_limited \<lparr> ReadAll := Inl (ErrOpaque ''unexpected EOF'') \<rparr>) \<and>
   fetch world_unread None = ([Do 0, Slept (500 * Millisecond), Do 1], Inr ''data'')"
  by (simp add: fetch_def fetch_loop.simps attempt_body_def send_def classify_def
        world_unread_def resp_limited_def resp_ok_def defaultFetchOptions_def delay_def
        wrap64_def Millisecond_def)

text \<open>
  C2. Under the default options: if the first \<open>n \<le> 3\<close> attempts fail retryably and
  attempt \<open>n\<close> succeeds, \<open>fetch\<close> returns that attempt's body after exactly \<open>n + 1\<close>
  requests, having slept 500ms, 1000ms and 2000ms before attempts 1, 2 and 3; if all four
  attempts fail retryably, it returns the cause of the fourth wrapped in the
  after-retries error; and in every world it sends at most four requests.
\<close>

theorem fetch_default_backoff:
  "(undisturbed w n \<and> n \<le> 3 \<and> (\<forall>j<n. retryable_failure (clientDo w j)) \<and>
      clientDo w n = DoResponse r \<and> StatusCode r = 200 \<and> ReadAll r = Inr body
      \<longrightarrow> fetch w None = (take (2 * n + 1) default_trace, Inr body))
   \<and> (undisturbed w 3 \<and> (\<forall>j<4. retryable_failure (clientDo w j))
      \<longrightarrow> fetch w None = (default_trace, Inl (AfterRetries 3 (cause_of (clientDo w 3)))))
   \<and> length (filter isDo (fst (fetch w None))) \<le> 4"
proof (intro conjI impI)
  assume a: "undisturbed w n \<and> n \<le> 3 \<and> (\<forall>j<n. retryable_failure (clientDo w j)) \<and>
      clientDo w n = DoResponse r \<and> StatusCode r = 200 \<and> ReadAll r = Inr body"
  then have c: "classify w r = Return (Inr body)" by (simp add: classify_def)
  have "fetch w None = (trace (optionsOf None) 0 n @ attempt_events (optionsOf None) n, Inr body)"
    using a c by (intro fetch_returns_at[where r = r]) (simp_all add: optionsOf_def defaultFetchOptions_def)
  then show "fetch w None = (take (2 * n + 1) default_trace, Inr body)"
    using a default_trace_prefix[of n] by (simp add: optionsOf_def)
next
  assume a: "undisturbed w 3 \<and> (\<forall>j<4. retryable_failure (clientDo w j))"
  have "fetch_loop w defaultFetchOptions 0 None =
      (trace defaultFetchOptions 0 (0 + 4) @
         fst (fetch_loop w defaultFetchOptions (0 + 4) (Some (cause_of (clientDo w (0 + 4 - 1))))),
       snd (fetch_loop w defaultFetchOptions (0 + 4) (Some (cause_of (clientDo w (0 + 4 - 1))))))"
    using a by (intro fetch_loop_retries) (simp_all add: defaultFetchOptions_def)
  moreover have "fetch_loop w defaultFetchOptions 4 (Some (cause_of (clientDo w 3))) =
      ([], Inl (AfterRetries 3 (cause_of (clientDo w 3))))"
    by (subst fetch_loop.simps) (simp add: defaultFetchOptions_def after_loop_def)
  moreover have "trace defaultFetchOptions 0 4 = default_trace"
    using default_trace_prefix[of 3] trace_snoc[of defaultFetchOptions 0 3]
    by (simp add: default_trace_def)
  ultimately show "fetch w None = (default_trace, Inl (AfterRetries 3 (cause_of (clientDo w 3))))"
    by (simp add: fetch_def)
next
  show "length (filter isDo (fst (fetch w None))) \<le> 4"
    using fetch_loop_Do_count[of w defaultFetchOptions 0 None]
    by (simp add: fetch_def defaultFetchOptions_def)
qed

text \<open>
  The theorem at work: 503, 503, 200 gives the third body after 500ms and 1000ms; three
  refused connections and a 502 give the wrapped 502.
\<close>

theorem fetch_default_backoff_witness:
  "fetch world_recovers None =
     ([Do 0, Slept (500 * Millisecond), Do 1, Slept (1000 * Millisecond), Do 2], Inr ''data'')
   \<and> fetch world_down None =
       (default_trace, Inl (AfterRetries 3 (httpError 502 ''502 Bad Gateway'')))"
  using fetch_default_backoff[of world_recovers 2 resp_ok "''data''"]
    fetch_default_backoff[of world_down 0 resp_ok "''data''"]
  by (simp add: world_recovers_def world_down_def resp_ok_def resp_busy_def undisturbed_def
        default_trace_def All_less_Suc numeral_2_eq_2 numeral_3_eq_3 eval_nat_numeral)

text \<open>
  C3 (as amended). Whenever attempt \<open>k\<close> is reached after \<open>k\<close> retryable failures and its
  response body was read without error: status 200 returns the body; every other status
  below 500 except 429, the 2xx statuses other than 200 among them, returns an
  \<open>httpError\<close> for that status at once. In both cases the trace ends with the request of
  attempt \<open>k\<close>.
\<close>

theorem fetch_status_classes:
  assumes "undisturbed w k" and "\<forall>j<k. retryable_failure (clientDo w j)"
    and "int k \<le> MaxRetries (optionsOf opts)"
    and "clientDo w k = DoResponse r" and "ReadAll r = Inr body"
  shows "(StatusCode r = 200 \<longrightarrow>
            fetch w opts = (trace (optionsOf opts) 0 k @ attempt_events (optionsOf opts) k, Inr body))
       \<and> (StatusCode r \<noteq> 200 \<and> StatusCode r \<noteq> 429 \<and> StatusCode r < 500 \<longrightarrow>
            fetch w opts = (trace (optionsOf opts) 0 k @ attempt_events (optionsOf opts) k,
                            Inl (httpError (StatusCode r) (Status r))))"
proof (intro conjI impI)
  assume "StatusCode r = 200"
  then have "classify w r = Return (Inr body)" using assms(5) by (simp add: classify_def)
  with assms(1-4)
  show "fetch w opts = (trace (optionsOf opts) 0 k @ attempt_events (optionsOf opts) k, Inr body)"
    by (rule fetch_returns_at)
next
  assume "StatusCode r \<noteq> 200 \<and> StatusCode r \<noteq> 429 \<and> StatusCode r < 500"
  then have "classify w r = Return (Inl (httpError (StatusCode r) (Status r)))"
    using assms(5) by (simp add: classify_def)
  with assms(1-4)
  show "fetch w opts = (trace (optionsOf opts) 0 k @ attempt_events (optionsOf opts) k,
                        Inl (httpError (StatusCode r) (Status r)))"
    by (rule fetch_returns_at)
qed

text \<open>The theorem at work: 503, 503, 200 returns the body; 404 is returned at once.\<close>

theorem fetch_status_classes_witness:
  "fetch world_recovers None =
     ([Do 0, Slept (500 * Millisecond), Do 1, Slept (1000 * Millisecond), Do 2], Inr ''data'')
   \<and> fetch world_missing None = ([Do 0], Inl (httpError 404 ''404 Not Found''))"
  using fetch_status_classes[of world_recovers 2 None resp_ok "''data''"]
    fetch_status_classes[of world_missing 0 None resp_missing "''nothing''"]
  by (simp add: world_recovers_def world_missing_def resp_ok_def resp_busy_def resp_missing_def
        undisturbed_def optionsOf_def defaultFetchOptions_def trace_def attempt_events_def
        delay_def wrap64_def Millisecond_def All_less_Suc numeral_2_eq_2)

text \<open>
  C3 as stated fails: only status 200 counts as success. A 201 response with a readable
  body is returned as an error.
\<close>

theorem fetch_201_is_an_error:
  "fetch world_created None = ([Do 0], Inl (httpError 201 ''201 Created''))"
  by (simp add: fetch_def fetch_loop.simps attempt_body_def send_def classify_def
        world_created_def defaultFetchOptions_def)

section \<open>Properties of the watchlist\<close>

lemma UpdatePriceChange_items_length:
  "length (UpdatePriceChange_items sy cur start items) = length items"
  by (induction items) auto

lemma UpdatePriceChange_items_other:
  "j < length items \<Longrightarrow> item_symbol (items ! j) \<noteq> sy \<Longrightarrow>
     UpdatePriceChange_items sy cur start items ! j = items ! j"
proof (induction items arbitrary: j)
  case Nil
  then show ?case by simp
next
  case (Cons row rest)
  then show ?case by (cases j) auto
qed

lemma UpdatePriceChange_items_pct:
  "\<not> start > 0 \<Longrightarrow>
     map changePct (UpdatePriceChange_items sy cur start items) = map changePct items"
  by (induction items) auto

lemma UpdatePriceChange_items_first:
  assumes "i < length items" "item_symbol (items ! i) = sy"
    and "\<forall>j<i. item_symbol (items ! j) \<noteq> sy"
  shows "UpdatePriceChange_items sy cur start items =
           items[i := (if start > 0
                       then (items ! i) \<lparr> price := cur, changePct := ((cur - start) / start) * 100 \<rparr>
                       else (items ! i) \<lparr> price := cur \<rparr>)]"
  using assms
proof (induction items arbitrary: i)
  case Nil
  then show ?case by simp
next
  case (Cons row rest)
  show ?case
  proof (cases i)
    case 0
    then show ?thesis using Cons.prems by simp
  next
    case (Suc k)
    have "item_symbol row \<noteq> sy" using Cons.prems(3) Suc by auto
    moreover have "UpdatePriceChange_items sy cur start rest =
           rest[k := (if start > 0
                       then (rest ! k) \<lparr> price := cur, changePct := ((cur - start) / start) * 100 \<rparr>
                       else (rest ! k) \<lparr> price := cur \<rparr>)]"
      using Cons.prems Suc by (intro Cons.IH) auto
    ultimately show ?thesis using Suc by simp
  qed
qed

text \<open>
  C10. \<^verbatim>\<open>UpdatePriceChange\<close> stores the rows computed by its loop. In these rows the
  first row with the symbol has its price set to the current price; its percent change
  is \<open>(current - start) / start * 100\<close> when the start price is positive and is left
  as it was otherwise; every other row, and so every row of another symbol, is
  unchanged. With a start price that is not positive no percent change of any row
  changes, so the result does not depend on the quotient.
\<close>

theorem UpdatePriceChange_rows:
  "length (UpdatePriceChange_items sy cur start items) = length items
   \<and> (\<forall>j<length items. item_symbol (items ! j) \<noteq> sy \<longrightarrow>
         UpdatePriceChange_items sy cur start items ! j = items ! j)
   \<and> (\<not> start > 0 \<longrightarrow>
         map changePct (UpdatePriceChange_items sy cur start items) = map changePct items)
   \<and> (\<forall>i<length items.
         item_symbol (items ! i) = sy \<and> (\<forall>j<i. item_symbol (items ! j) \<noteq> sy) \<longrightarrow>
           item_symbol (UpdatePriceChange_items sy cur start items ! i) = sy
         \<and> price (UpdatePriceChange_items sy cur start items ! i) = cur
         \<and> changePct (UpdatePriceChange_items sy cur start items ! i) =
             (if start > 0 then ((cur - start) / start) * 100 else changePct (items ! i))
         \<and> (\<forall>j<length items. j \<noteq> i \<longrightarrow>
               UpdatePriceChange_items sy cur start items ! j = items ! j))
   \<and> wl_list (UpdatePriceChange lw sy cur start m) =
       list_SetItems lw (UpdatePriceChange_items sy cur start (list_Items lw (wl_list m)))
         (wl_list m)"
proof (intro conjI allI impI)
  show "length (UpdatePriceChange_items sy cur start items) = length items"
    by (rule UpdatePriceChange_items_length)
next
  fix j assume "j < length items" "item_symbol (items ! j) \<noteq> sy"
  then show "UpdatePriceChange_items sy cur start items ! j = items ! j"
    by (rule UpdatePriceChange_items_other)
next
  assume "\<not> start > 0"
  then show "map changePct (UpdatePriceChange_items sy cur start items) = map changePct items"
    by (rule UpdatePriceChange_items_pct)
next
  show "wl_list (UpdatePriceChange lw sy cur start m) =
       list_SetItems lw (UpdatePriceChange_items sy cur start (list_Items lw (wl_list m)))
         (wl_list m)"
    by (simp add: UpdatePriceChange_def)
next
  fix i
  assume i: "i < length items"
    and h: "item_symbol (items ! i) = sy \<and> (\<forall>j<i. item_symbol (items ! j) \<noteq> sy)"
  note eq = UpdatePriceChange_items_first[OF i conjunct1[OF h] conjunct2[OF h], of cur start]
  show "item_symbol (UpdatePriceChange_items sy cur start items ! i) = sy"
    using i h by (simp add: eq)
  show "price (UpdatePriceChange_items sy cur start items ! i) = cur"
    using i by (simp add: eq)
  show "changePct (UpdatePriceChange_items sy cur start items ! i) =
             (if start > 0 then ((cur - start) / start) * 100 else changePct (items ! i))"
    using i by (simp add: eq)
  fix j assume "j < length items" "j \<noteq> i"
  then show "UpdatePriceChange_items sy cur start items ! j = items ! j"
    by (simp add: eq)
qed

text \<open>The theorem at work on a watchlist of two rows, with start prices 100 and 0.\<close>

theorem UpdatePriceChange_rows_witness:
  "UpdatePriceChange_items ''BTC-USD'' 110 100 demo_items ! 0 = demo_items ! 0
   \<and> price (UpdatePriceChange_items ''BTC-USD'' 110 100 demo_items ! 1) = 110
   \<and> changePct (UpdatePriceChange_items ''BTC-USD'' 110 100 demo_items ! 1) = 10
   \<and> map changePct (UpdatePriceChange_items ''BTC-USD'' 110 0 demo_items) = [1, 2]"
  using UpdatePriceChange_rows[of "''BTC-USD''" 110 100 demo_items]
    UpdatePriceChange_rows[of "''BTC-USD''" 110 0 demo_items]
  by (simp add: demo_items_def All_less_Suc numeral_2_eq_2)

section \<open>Properties of the chart\<close>

lemma minmax_le: "lo \<le> hi \<Longrightarrow> fst (minmax lo hi ps) \<le> snd (minmax lo hi ps)"
  by (induction ps arbitrary: lo hi) auto

lemma minmax_snd: "snd (minmax lo hi ps) = Max (insert hi (set ps))"
proof (induction ps arbitrary: lo hi)
  case Nil
  then show ?case by simp
next
  case (Cons p ps)
  have "Max (insert (if p > hi then p else hi) (set ps)) = Max (insert hi (insert p (set ps)))"
    by (cases "set ps = {}") (auto simp: max_def)
  then show ?case by (simp add: Cons.IH)
qed

lemma minmax_fst: "fst (minmax lo hi ps) = Min (insert lo {p \<in> set ps. 0 < p})"
proof (induction ps arbitrary: lo hi)
  case Nil
  then show ?case by simp
next
  case (Cons p ps)
  let ?S = "{q \<in> set ps. 0 < q}"
  have fin: "finite ?S" by simp
  have S: "{q \<in> set (p # ps). 0 < q} = (if 0 < p then insert p ?S else ?S)" by auto
  have key: "Min (insert (min p lo) ?S) = min lo (Min (insert p ?S))"
  proof (cases "?S = {}")
    case True
    show ?thesis unfolding True by (simp add: min.commute)
  next
    case False
    then show ?thesis using fin by (simp add: min.left_commute)
  qed
  have "Min (insert (if p > 0 \<and> p < lo then p else lo) ?S)
          = Min (insert lo (if 0 < p then insert p ?S else ?S))"
  proof (cases "0 < p")
    case False
    then show ?thesis by simp
  next
    case True
    have "(if p < lo then p else lo) = min p lo" by (simp add: min_def)
    moreover have "Min (insert lo (insert p ?S)) = min lo (Min (insert p ?S))"
      using fin by simp
    ultimately show ?thesis using True key by simp
  qed
  then show ?case by (simp add: Cons.IH S del: set_simps)
qed

lemma go_int_of_int: "go_int (of_int k) = k"
  by (simp add: go_int_def)

lemma toRow_top: "0 < h \<Longrightarrow> toRow h s (maxP s) = 0"
  by (simp add: toRow_def go_int_def)

lemma toRow_bottom:
  assumes "0 < h" and "spread s = maxP s - minP s" and "spread s \<noteq> 0"
  shows "toRow h s (minP s) = h - 1"
proof -
  have "(maxP s - minP s) / spread s * of_int (h - 1) = of_int (h - 1)"
    using assms(2,3) by simp
  then have "go_int ((maxP s - minP s) / spread s * of_int (h - 1)) = h - 1"
    by (simp only: go_int_of_int)
  then show ?thesis using assms(1) by (simp add: toRow_def Let_def del: of_int_diff)
qed

text \<open>
  C8. For a chart that is not too small and has data, with \<open>lo\<close> and \<open>hi\<close> the minimum
  and maximum close found by the scan: when they are equal the spread is 1% of \<open>hi\<close>,
  otherwise it is \<open>hi - lo\<close>; the bounds are moved apart by 5% of that spread and the
  spread is recomputed from the padded bounds. The padded spread is zero only for the
  degenerate series with \<open>lo = hi = 0\<close>; for every other series the padded maximum maps
  to row 0 and the padded minimum to row \<open>chartH - 1\<close>.
\<close>

theorem render_scaling_rows:
  assumes "\<not> tooSmall m" and "data m \<noteq> []"
  shows "let lo = fst (closeBounds (data m));
             hi = snd (closeBounds (data m));
             sp = (if hi - lo = 0 then hi * 0.01 else hi - lo);
             s = \<lparr> minP = lo - sp * 0.05, maxP = hi + sp * 0.05,
                   spread = (hi + sp * 0.05) - (lo - sp * 0.05) \<rparr>
         in render_scaling m = Some s
          \<and> hi = Max (set (map Close (data m)))
          \<and> lo = Min (insert (Close (data m ! 0)) {p \<in> set (map Close (data m)). 0 < p})
          \<and> lo \<le> hi
          \<and> (spread s = 0 \<longleftrightarrow> lo = 0 \<and> hi = 0)
          \<and> (spread s \<noteq> 0 \<longrightarrow>
                toRow (chartH m) s (maxP s) = 0 \<and> toRow (chartH m) s (minP s) = chartH m - 1)"
proof -
  define lo where "lo = fst (closeBounds (data m))"
  define hi where "hi = snd (closeBounds (data m))"
  define sp where "sp = (if hi - lo = 0 then hi * 0.01 else hi - lo)"
  define s where "s = \<lparr> minP = lo - sp * 0.05, maxP = hi + sp * 0.05,
                         spread = (hi + sp * 0.05) - (lo - sp * 0.05) \<rparr>"
  have h: "0 < chartH m" using assms(1) by (simp add: tooSmall_def)
  have r: "render_scaling m = Some s"
    using assms by (simp add: render_scaling_def padded_def Let_def s_def sp_def lo_def hi_def)
  have mem: "Close (data m ! 0) \<in> set (map Close (data m))"
    using assms(2) by (cases "data m") auto
  have hi: "hi = Max (set (map Close (data m)))"
    using mem by (simp add: hi_def closeBounds_def minmax_snd insert_absorb del: set_map)
  have lo: "lo = Min (insert (Close (data m ! 0)) {p \<in> set (map Close (data m)). 0 < p})"
    by (simp add: lo_def closeBounds_def minmax_fst)
  have le: "lo \<le> hi"
    unfolding lo_def hi_def closeBounds_def by (rule minmax_le) simp
  have "spread s = (if hi = lo then hi / 1000 else 11 * (hi - lo) / 10)"
    by (simp add: s_def sp_def field_simps)
  then have z: "spread s = 0 \<longleftrightarrow> lo = 0 \<and> hi = 0"
    using le by auto
  have rows: "spread s \<noteq> 0 \<longrightarrow>
                toRow (chartH m) s (maxP s) = 0 \<and> toRow (chartH m) s (minP s) = chartH m - 1"
    using h toRow_top[of "chartH m" s] toRow_bottom[of "chartH m" s] by (simp add: s_def)
  show ?thesis
    using r hi lo le z rows
    unfolding Let_def lo_def[symmetric] hi_def[symmetric] sp_def[symmetric] s_def[symmetric]
    by blast
qed

text \<open>The theorem at work: closes between 100 and 110 on a canvas of 10 rows.\<close>

theorem render_scaling_rows_witness:
  "render_scaling demo_chart = Some \<lparr> minP = 99.5, maxP = 110.5, spread = 11 \<rparr>
   \<and> toRow 10 \<lparr> minP = 99.5, maxP = 110.5, spread = 11 \<rparr> 110.5 = 0
   \<and> toRow 10 \<lparr> minP = 99.5, maxP = 110.5, spread = 11 \<rparr> 99.5 = 9"
  using render_scaling_rows[of demo_chart]
  by (simp add: demo_chart_def chart_New_def flat_candle_def tooSmall_def chartW_def chartH_def
        closeBounds_def Let_def)

lemma scan_bucket_high: "fst (scan_bucket hi lo cs) = Max (insert hi (set (map High cs)))"
proof (induction cs arbitrary: hi lo)
  case Nil
  then show ?case by simp
next
  case (Cons c cs)
  have "Max (insert (if High c > hi then High c else hi) (set (map High cs)))
          = Max (insert hi (insert (High c) (set (map High cs))))"
    by (cases "set (map High cs) = {}") (auto simp: max_def)
  then show ?case by (simp add: Cons.IH del: set_map)
qed

lemma scan_bucket_low_stuck: "lo \<le> 0 \<Longrightarrow> snd (scan_bucket hi lo cs) = lo"
  by (induction cs arbitrary: hi) auto

lemma scan_bucket_low:
  "snd (scan_bucket hi lo cs) = Min (insert lo {l \<in> set (map Low cs). 0 < l})"
proof (induction cs arbitrary: hi lo)
  case Nil
  then show ?case by simp
next
  case (Cons c cs)
  let ?S = "{l \<in> set (map Low cs). 0 < l}"
  have fin: "finite ?S" by simp
  have S: "{l \<in> set (map Low (c # cs)). 0 < l} = (if 0 < Low c then insert (Low c) ?S else ?S)"
    by auto
  have key: "Min (insert (min (Low c) lo) ?S) = min lo (Min (insert (Low c) ?S))"
  proof (cases "?S = {}")
    case True
    show ?thesis unfolding True by (simp add: min.commute)
  next
    case False
    then show ?thesis using fin by (simp add: min.left_commute)
  qed
  have "Min (insert (if Low c < lo \<and> Low c > 0 then Low c else lo) ?S)
          = Min (insert lo (if 0 < Low c then insert (Low c) ?S else ?S))"
  proof (cases "0 < Low c")
    case False
    then show ?thesis by simp
  next
    case True
    have "(if Low c < lo then Low c else lo) = min (Low c) lo" by (simp add: min_def)
    moreover have "Min (insert lo (insert (Low c) ?S)) = min lo (Min (insert (Low c) ?S))"
      using fin by simp
    ultimately show ?thesis using True key by simp
  qed
  then have "snd (scan_bucket hi lo (c # cs))
               = Min (insert lo (if 0 < Low c then insert (Low c) ?S else ?S))"
    by (simp add: Cons.IH)
  then show ?case by (simp only: S)
qed

text \<open>
  C9 at a failing input. Twenty candles on a canvas ten columns wide give buckets of two.
  The first candle of the first bucket has low 0, the second has low 9: the only
  strictly positive low of the bucket is 9, yet the bucket's low is 0, because the scan
  starts at the first candle's low without testing it. Open, close and high are as the
  claim says.
\<close>

theorem candle_low_keeps_nonpositive_first:
  "\<not> tooSmall gappy_chart
   \<and> bucket_candles (data gappy_chart) 0 2 = [gap_candle, full_candle]
   \<and> filter (\<lambda>l. 0 < l) (map Low [gap_candle, full_candle]) = [9]
   \<and> candle_column (data gappy_chart) (chartW gappy_chart) 0
       = Some \<lparr> b_open = 10, b_close = 12, b_high = 13, b_low = 0 \<rparr>"
  by (simp add: gappy_chart_def chart_New_def tooSmall_def chartW_def chartH_def
        bucket_candles_def candle_column_def candlesPerCol_def quot_def bucket_at_def
        gap_candle_def full_candle_def Let_def numeral_2_eq_2)

section \<open>Properties of the state orchestrator\<close>

lemma loadCurrentChart_cache [simp]: "lastHistory (fst (loadCurrentChart lw m)) = lastHistory m"
  by (simp add: loadCurrentChart_def Let_def split: option.splits)

lemma refreshCurrentChart_cache [simp]: "lastHistory (fst (refreshCurrentChart lw m)) = lastHistory m"
  by (simp add: refreshCurrentChart_def Let_def)

lemma cycleTimeRange_cache [simp]: "lastHistory (cycleTimeRange m) = lastHistory m"
  by (simp add: cycleTimeRange_def)

lemma setTimeRange_cache [simp]: "lastHistory (setTimeRange tr m) = lastHistory m"
  by (simp add: setTimeRange_def)

lemma on_Key_cache [simp]: "lastHistory (fst (on_Key lw hw k m)) = lastHistory m"
  by (simp add: on_Key_def)

lemma on_Mouse_cache [simp]: "lastHistory (fst (on_Mouse lw x y a b m)) = lastHistory m"
  by (simp add: on_Mouse_def)

lemma on_WindowSize_cache [simp]: "lastHistory (on_WindowSize lw hw w h m) = lastHistory m"
  by (simp add: on_WindowSize_def Let_def)

lemma on_quotes_cache [simp]: "lastHistory (fst (on_quotes lw qs e m)) = lastHistory m"
  by (simp add: on_quotes_def Let_def split: option.splits)

lemma on_retryHistory_cache [simp]: "lastHistory (fst (on_retryHistory lw s tr m)) = lastHistory m"
  by (simp add: on_retryHistory_def)

lemma on_history_rateLimited_cache [simp]:
  "lastHistory (fst (on_history_rateLimited lw s tr e retry m)) = lastHistory m"
  by (simp add: on_history_rateLimited_def split: option.splits)

lemma on_history_ok_cache [simp]:
  "lastHistory (fst (on_history_ok lw s tr d m)) = (lastHistory m)(cacheKey s tr \<mapsto> d)"
  by (simp add: on_history_ok_def Let_def)


lemma Update_tail_cache [simp]: "lastHistory (fst (Update_tail lw m0 m cmds)) = lastHistory m"
  by (simp add: Update_tail_def Let_def split: option.splits)

lemma Update_help_cache [simp]: "lastHistory (fst (Update_help hw m0 m)) = lastHistory m"
  by (simp add: Update_help_def Let_def split: msg.splits)














lemma Update_history_rateLimited:
  assumes "\<not> help_Visible hw (app_help m)" and "asRateLimitError e = Some retry"
  shows "Update lw hw (historyMsg s tr d (Some e)) m =
           (fst (on_history_rateLimited lw s tr e retry m), [Tick retry (retryHistoryMsg s tr)])"
  using assms
  by (simp add: Update_def Update_switch_def on_history_def on_history_rateLimited_def)

text \<open>
  C4 (as amended). While the help overlay is hidden, a history result with a rate-limit
  error schedules exactly one command, the retry of that pair after the signalled
  delay, whatever the cache and the selection are, and leaves the cache unchanged. If
  the pair is cached and is the current selection, the chart shows the cached series,
  stale, with the retry delay; if the pair is not cached, the chart shows the error.
\<close>

theorem history_rate_limited:
  assumes "\<not> help_Visible hw (app_help m)" and "asRateLimitError e = Some retry"
  shows "snd (Update lw hw (historyMsg s tr d (Some e)) m) = [Tick retry (retryHistoryMsg s tr)]
       \<and> lastHistory (fst (Update lw hw (historyMsg s tr d (Some e)) m)) = lastHistory m
       \<and> (\<forall>cached. lastHistory m (cacheKey s tr) = Some cached
              \<and> SelectedSymbol lw (watchlist m) = s \<and> app_timeRange m = tr \<longrightarrow>
            chart (fst (Update lw hw (historyMsg s tr d (Some e)) m)) =
              (chart m) \<lparr> symbol := s, timeRange := tr, data := cached, loading := False,
                          err := None, stale := True, retryAfter := retry \<rparr>)
       \<and> (lastHistory m (cacheKey s tr) = None \<longrightarrow>
            chart (fst (Update lw hw (historyMsg s tr d (Some e)) m)) =
              (chart m) \<lparr> err := Some e, loading := False, stale := False \<rparr>)"
  unfolding Update_history_rateLimited[OF assms]
  by (simp add: on_history_rateLimited_def SetStale_def SetData_def SetError_def
        split: option.splits)

text \<open>
  The theorem at work: AAPL at 24H is cached and selected and is served stale with a
  10s delay; BTC-USD is not cached and shows the error; both schedule the retry.
\<close>

theorem history_rate_limited_witness:
  "snd (Update demo_list demo_help (historyMsg ''AAPL'' Range24H [] (Some limited_10s)) demo_app)
     = [Tick (10 * Second) (retryHistoryMsg ''AAPL'' Range24H)]
   \<and> data (chart (fst (Update demo_list demo_help
              (historyMsg ''AAPL'' Range24H [] (Some limited_10s)) demo_app))) = five_candles
   \<and> stale (chart (fst (Update demo_list demo_help
              (historyMsg ''AAPL'' Range24H [] (Some limited_10s)) demo_app)))
   \<and> retryAfter (chart (fst (Update demo_list demo_help
              (historyMsg ''AAPL'' Range24H [] (Some limited_10s)) demo_app))) = 10 * Second
   \<and> err (chart (fst (Update demo_list demo_help
              (historyMsg ''BTC-USD'' Range24H [] (Some limited_10s)) demo_app)))
       = Some limited_10s
   \<and> snd (Update demo_list demo_help (historyMsg ''BTC-USD'' Range24H [] (Some limited_10s)) demo_app)
       = [Tick (10 * Second) (retryHistoryMsg ''BTC-USD'' Range24H)]"
  using history_rate_limited[of demo_help demo_app limited_10s "10 * Second" demo_list
      "''AAPL''" Range24H "[]"]
    history_rate_limited[of demo_help demo_app limited_10s "10 * Second" demo_list
      "''BTC-USD''" Range24H "[]"]
  by (simp add: limited_10s_def demo_app_def demo_help_def demo_list_def demo_items_def
        SelectedSymbol_def cacheKey_def)

text \<open>
  C4 as stated fails: while the help overlay is visible the message only reaches the
  overlay. Nothing is presented and no retry is scheduled.
\<close>

theorem history_rate_limited_dropped_under_help:
  "help_Visible demo_help (app_help (demo_app \<lparr> app_help := True \<rparr>))
   \<and> Update demo_list demo_help (historyMsg ''AAPL'' Range24H [] (Some limited_10s))
       (demo_app \<lparr> app_help := True \<rparr>) = (demo_app \<lparr> app_help := True \<rparr>, [])"
  by (simp add: Update_def Update_help_def demo_help_def demo_app_def widget_cmd_def Let_def)








lemma loadCurrentChart_cached:
  assumes "SelectedSymbol lw (watchlist m) \<noteq> []"
    and "lastHistory m (cacheKey (SelectedSymbol lw (watchlist m)) (app_timeRange m)) = Some cached"
  shows "loadCurrentChart lw m =
           (m \<lparr> chart := SetData (SelectedSymbol lw (watchlist m)) (app_timeRange m) cached (chart m) \<rparr>,
            [])"
  using assms by (simp add: loadCurrentChart_def Let_def)

lemma setTimeRange_range [simp]: "app_timeRange (setTimeRange tr m) = tr"
  by (simp add: setTimeRange_def)

lemma setTimeRange_eq: "setTimeRange tr m = m \<lparr> app_timeRange := tr \<rparr>"
  by (simp add: setTimeRange_def)

text \<open>
  The keyboard paths to a cached pair: Tab and the keys 1 to 4 present the cached series
  and issue no command at all.
\<close>

lemma range_key_cached:
  assumes "\<not> help_Visible hw (app_help m)"
    and "(k, tr) \<in> {(''tab'', nextRange (app_timeRange m)), (''1'', Range1H), (''2'', Range24H),
                     (''3'', Range7D), (''4'', Range30D)}"
    and "SelectedSymbol lw (watchlist m) \<noteq> []"
    and "lastHistory m (cacheKey (SelectedSymbol lw (watchlist m)) tr) = Some cached"
  shows "Update lw hw (KeyMsg k) m =
           (m \<lparr> app_timeRange := tr,
                chart := SetData (SelectedSymbol lw (watchlist m)) tr cached (chart m) \<rparr>, [])"
proof -
  have l: "loadCurrentChart lw (m \<lparr> app_timeRange := tr \<rparr>) =
      (m \<lparr> app_timeRange := tr,
           chart := SetData (SelectedSymbol lw (watchlist m)) tr cached (chart m) \<rparr>, [])"
    using assms(3,4) loadCurrentChart_cached[of lw "m \<lparr> app_timeRange := tr \<rparr>" cached] by simp
  have "on_Key lw hw k m =
      (fst (loadCurrentChart lw (m \<lparr> app_timeRange := tr \<rparr>)),
       snd (loadCurrentChart lw (m \<lparr> app_timeRange := tr \<rparr>)), True)"
    using assms(2) by (auto simp: on_Key_def cycleTimeRange_def setTimeRange_eq)
  then show ?thesis using assms(1) l by (simp add: Update_def Update_switch_def)
qed

text \<open>
  A key that the switch does not handle and that moves the selection to a symbol whose
  pair is cached: the cached series is presented and the only command is the list
  widget's own.
\<close>

lemma selection_key_cached:
  assumes "\<not> help_Visible hw (app_help m)"
    and "k \<notin> {''q'', ''ctrl+c'', ''?'', ''tab'', ''1'', ''2'', ''3'', ''4'', ''r'', ''c''}"
    and "SelectedSymbol lw (fst (watchlist_Update lw (KeyMsg k) (watchlist m))) = new"
    and "new \<noteq> SelectedSymbol lw (watchlist m)" and "new \<noteq> []"
    and "lastHistory m (cacheKey new (app_timeRange m)) = Some cached"
  shows "Update lw hw (KeyMsg k) m =
           (m \<lparr> watchlist := fst (watchlist_Update lw (KeyMsg k) (watchlist m)),
                chart := SetData new (app_timeRange m) cached (chart m) \<rparr>,
            widget_cmd (snd (watchlist_Update lw (KeyMsg k) (watchlist m))))"
proof -
  have "on_Key lw hw k m = (m, [], False)"
    using assms(2) by (simp add: on_Key_def)
  then have "Update lw hw (KeyMsg k) m = Update_tail lw (KeyMsg k) m []"
    using assms(1) by (simp add: Update_def Update_switch_def)
  then show ?thesis
    using assms(3-6) by (auto simp: Update_tail_def Let_def chart_Update_def widget_cmd_def)
qed

text \<open>
  C5 at a failing input. AAPL is selected at 1H and AAPL at 24H is cached. A left click
  on the footer row cycles the range to 24H, marks the chart loading and issues a
  history fetch for the cached pair; the Tab key in the same state presents the cached
  series and issues nothing.
\<close>

theorem footer_click_refetches_cached_range:
  "\<not> help_Visible demo_help (app_help demo_app_1H)
   \<and> SelectedSymbol demo_list (watchlist demo_app_1H) = ''AAPL''
   \<and> lastHistory demo_app_1H (cacheKey ''AAPL'' Range24H) = Some five_candles
   \<and> app_timeRange (fst (Update demo_list demo_help
        (MouseMsg 5 23 MouseActionPress MouseButtonLeft) demo_app_1H)) = Range24H
   \<and> snd (Update demo_list demo_help (MouseMsg 5 23 MouseActionPress MouseButtonLeft) demo_app_1H)
       = [fetchHistory ''AAPL'' Range24H]
   \<and> loading (chart (fst (Update demo_list demo_help
        (MouseMsg 5 23 MouseActionPress MouseButtonLeft) demo_app_1H)))
   \<and> data (chart (fst (Update demo_list demo_help
        (MouseMsg 5 23 MouseActionPress MouseButtonLeft) demo_app_1H))) = []
   \<and> snd (Update demo_list demo_help (KeyMsg ''tab'') demo_app_1H) = []
   \<and> data (chart (fst (Update demo_list demo_help (KeyMsg ''tab'') demo_app_1H))) = five_candles"
  by (simp add: Update_def Update_switch_def on_Mouse_def on_Key_def cycleTimeRange_def
        refreshCurrentChart_def loadCurrentChart_def SelectedSymbol_def demo_app_1H_def
        demo_app_def demo_help_def demo_list_def demo_items_def cacheKey_def Let_def
        SetLoading_def SetData_def SetSize_def chart_New_def)

end
